theory Spec2Isabelle
  imports Complex_Main "HOL-Library.Char_ord" "HOL-Library.List_Lexorder" "HOL-Library.AList"
    "HOL-Library.Sublist"
begin

section \<open>Python values and exceptions\<close>

text \<open>
  The program is dynamically typed: the fields of a record, the values of the settings
  dictionary and the contents of a JSON file are arbitrary JSON-like Python values.
  A Python \<open>int\<close> is an integer; a Python \<open>float\<close> is a value of the type \<open>'a\<close>, of
  which the functions below only use the operations that the source uses: binary64
  numbers in the program as it runs, the numbers of a ring where a property is one of
  exact arithmetic. A dictionary with string keys is an association list in insertion
  order.
\<close>

datatype 'a pyval =
    PyNone
  | PyBool bool
  | PyInt int
  | PyFloat 'a
  | PyStr string
  | PyList "'a pyval list"
  | PyDict "(string \<times> 'a pyval) list"

text \<open>
  Exceptions are values. \<open>InvalidBackupFormat\<close> is the \<open>ValueError\<close> raised by the key
  check of \<open>restore_from_backup\<close>; \<open>BackupFailed e\<close> and \<open>RestoreFailed e\<close> are the
  \<open>Exception\<close>s into which \<open>create_backup\<close> and \<open>restore_from_backup\<close> wrap the
  message of any exception \<open>e\<close> raised in their body. \<open>NotModelled\<close> is no exception:
  it marks the two places where the program leaves the values described here, a
  dictionary that gets a key which is no string and an assignment to an attribute of a
  record that is none of its fields.
\<close>

datatype error =
    TypeError
  | ValueError
  | AttributeError
  | KeyError
  | OSError
  | OverflowError
  | JSONDecodeError
  | InvalidBackupFormat
  | BackupFailed error
  | RestoreFailed error
  | NotModelled

text \<open>
  What the program needs of the floats besides their arithmetic: the float that
  \<open>float\<close> reads from a string, which is the business of Python's parser (\<open>None\<close>: the
  string is no number, \<open>ValueError\<close>); the float nearest to an int (\<open>None\<close>: the int is
  too large for a float, \<open>OverflowError\<close>); and the int that a float is equal to for
  \<open>==\<close>, if there is one.
\<close>

record 'a floats =
  float_of_str :: "string \<Rightarrow> 'a option"
  float_of_int :: "int \<Rightarrow> 'a option"
  int_of_float :: "'a \<Rightarrow> int option"

text \<open>\<open>float(v)\<close>.\<close>

fun py_float :: "'a floats \<Rightarrow> ('a::{zero,one}) pyval \<Rightarrow> error + 'a" where
  "py_float fl (PyFloat x) = Inr x"
| "py_float fl (PyInt i) =
     (case float_of_int fl i of Some x \<Rightarrow> Inr x | None \<Rightarrow> Inl OverflowError)"
| "py_float fl (PyBool b) = Inr (if b then 1 else 0)"
| "py_float fl (PyStr s) =
     (case float_of_str fl s of Some x \<Rightarrow> Inr x | None \<Rightarrow> Inl ValueError)"
| "py_float fl PyNone = Inl TypeError"
| "py_float fl (PyList xs) = Inl TypeError"
| "py_float fl (PyDict kvs) = Inl TypeError"

text \<open>
  \<open>bal += v\<close> and \<open>bal -= v\<close> for a float \<open>bal\<close>: an int is converted to a float first,
  a bool counts as 0 or 1, and any other value that is no float is a \<open>TypeError\<close>.
\<close>

fun float_iadd :: "'a floats \<Rightarrow> 'a \<Rightarrow> ('a::{zero,one,plus}) pyval \<Rightarrow> error + 'a" where
  "float_iadd fl bal (PyFloat x) = Inr (bal + x)"
| "float_iadd fl bal (PyInt i) =
     (case float_of_int fl i of Some x \<Rightarrow> Inr (bal + x) | None \<Rightarrow> Inl OverflowError)"
| "float_iadd fl bal (PyBool b) = Inr (bal + (if b then 1 else 0))"
| "float_iadd fl bal v = Inl TypeError"

fun float_isub :: "'a floats \<Rightarrow> 'a \<Rightarrow> ('a::{zero,one,minus}) pyval \<Rightarrow> error + 'a" where
  "float_isub fl bal (PyFloat x) = Inr (bal - x)"
| "float_isub fl bal (PyInt i) =
     (case float_of_int fl i of Some x \<Rightarrow> Inr (bal - x) | None \<Rightarrow> Inl OverflowError)"
| "float_isub fl bal (PyBool b) = Inr (bal - (if b then 1 else 0))"
| "float_isub fl bal v = Inl TypeError"

text \<open>\<open>d.get(k, default)\<close>: an \<open>AttributeError\<close> when \<open>d\<close> is no dictionary.\<close>

fun py_get :: "'a pyval \<Rightarrow> string \<Rightarrow> 'a pyval \<Rightarrow> error + 'a pyval" where
  "py_get (PyDict kvs) k d = Inr (case map_of kvs k of Some v \<Rightarrow> v | None \<Rightarrow> d)"
| "py_get v k d = Inl AttributeError"

section \<open>Python floats\<close>

text \<open>
  A Python \<open>float\<close> is an IEEE 754 binary64 number. A finite one is the rational it
  stands for (the two zeros are one value, as they are for \<open>==\<close>). The sum and the
  difference of two finite floats is the exact result rounded to the nearest float,
  a tie going to the even significand: the significand has 53 bits, the least
  exponent of the last bit is -1074, and a rounded result of magnitude \<open>2^1024\<close> or more
  is an infinity.
\<close>

datatype double = Finite rat | PosInf | NegInf | NaN

text \<open>The number of binary digits of \<open>n\<close>.\<close>

fun bit_length :: "nat \<Rightarrow> nat" where
  "bit_length n = (if n = 0 then 0 else Suc (bit_length (n div 2)))"

declare bit_length.simps [simp del]

text \<open>The exponent \<open>e\<close> with \<open>2^e \<le> |x| < 2^(e+1)\<close>, for \<open>x \<noteq> 0\<close>.\<close>

definition ilog2 :: "rat \<Rightarrow> int" where
  "ilog2 x =
     (if 1 \<le> \<bar>x\<bar> then int (bit_length (nat \<lfloor>\<bar>x\<bar>\<rfloor>)) - 1
      else - int (bit_length (nat (\<lceil>1 / \<bar>x\<bar>\<rceil> - 1))))"

definition round_half_even :: "rat \<Rightarrow> int" where
  "round_half_even x =
     (let n = \<lfloor>x\<rfloor>; f = x - of_int n
      in if f < 1 / 2 then n else if 1 / 2 < f then n + 1
         else if even n then n else n + 1)"

definition round_double :: "rat \<Rightarrow> double" where
  "round_double x =
     (if x = 0 then Finite 0
      else
        let e = max (ilog2 x - 52) (- 1074);
            q = power_int 2 e;
            y = of_int (round_half_even (x / q)) * q
        in if 2 ^ 1024 \<le> \<bar>y\<bar> then (if 0 < x then PosInf else NegInf) else Finite y)"

instantiation double :: "{zero,one,plus,minus}"
begin

definition zero_double :: double where
  "zero_double = Finite 0"

definition one_double :: double where
  "one_double = Finite 1"

fun plus_double :: "double \<Rightarrow> double \<Rightarrow> double" where
  "plus_double (Finite a) (Finite b) = round_double (a + b)"
| "plus_double NaN y = NaN"
| "plus_double x NaN = NaN"
| "plus_double PosInf NegInf = NaN"
| "plus_double NegInf PosInf = NaN"
| "plus_double PosInf y = PosInf"
| "plus_double NegInf y = NegInf"
| "plus_double (Finite a) y = y"

fun minus_double :: "double \<Rightarrow> double \<Rightarrow> double" where
  "minus_double (Finite a) (Finite b) = round_double (a - b)"
| "minus_double NaN y = NaN"
| "minus_double x NaN = NaN"
| "minus_double PosInf PosInf = NaN"
| "minus_double NegInf NegInf = NaN"
| "minus_double PosInf y = PosInf"
| "minus_double NegInf y = NegInf"
| "minus_double (Finite a) PosInf = NegInf"
| "minus_double (Finite a) NegInf = PosInf"

instance ..

end

text \<open>
  The conversion of an int rounds in the same way, and an int whose float would be an
  infinity has none. \<open>binary64\<close> are the floats of the program as it runs, for a
  parser \<open>parse\<close>.
\<close>

definition double_of_int :: "int \<Rightarrow> double option" where
  "double_of_int i =
     (case round_double (of_int i) of Finite y \<Rightarrow> Some (Finite y) | _ \<Rightarrow> None)"

definition int_of_double :: "double \<Rightarrow> int option" where
  "int_of_double x =
     (case x of Finite q \<Rightarrow> if of_int \<lfloor>q\<rfloor> = q then Some \<lfloor>q\<rfloor> else None | _ \<Rightarrow> None)"

definition binary64 :: "(string \<Rightarrow> double option) \<Rightarrow> double floats" where
  "binary64 parse =
     \<lparr>float_of_str = parse, float_of_int = double_of_int, int_of_float = int_of_double\<rparr>"

text \<open>
  Exact arithmetic: the floats are the rational numbers, and every int has one.
\<close>

definition exact :: "(string \<Rightarrow> rat option) \<Rightarrow> rat floats" where
  "exact parse =
     \<lparr>float_of_str = parse, float_of_int = (\<lambda>i. Some (of_int i)),
      int_of_float = (\<lambda>q. if of_int \<lfloor>q\<rfloor> = q then Some \<lfloor>q\<rfloor> else None)\<rparr>"

section \<open>Data model\<close>

text \<open>
  The dataclass \<open>Record\<close>. The annotations of the source are not enforced, so every
  field holds any value. The fields \<open>id\<close> and \<open>note\<close> are \<open>rec_id\<close> and \<open>rec_note\<close> here.
\<close>

record 'a Record =
  rec_id :: "'a pyval"
  amount :: "'a pyval"
  kind :: "'a pyval"
  category :: "'a pyval"
  timestamp :: "'a pyval"
  rec_note :: "'a pyval"
  overconsumption_mark :: "'a pyval"

record 'a LoanRecord =
  loan_id :: "'a pyval"
  loan_name :: "'a pyval"
  loan_amount :: "'a pyval"
  loan_date :: "'a pyval"
  due_date :: "'a pyval"
  repaid :: "'a pyval"
  loan_note :: "'a pyval"

text \<open>
  What \<open>_load\<close> finds at \<open>path\<close>: no file; a file from which nothing is loaded
  (\<open>open\<close> or \<open>json.load\<close> raises, or the JSON value is one on which \<open>dict.update\<close>
  raises at once or does nothing: a number, a string, a boolean, \<open>null\<close>, an array that
  is empty or begins with something that is no pair); or a JSON object, the persisted
  format, with its keys in the order of the file. An array that begins with pairs,
  which \<open>dict.update\<close> would read as keys and values, is not a snapshot and has no
  place in this type.
\<close>

datatype 'a snapshot_file = NoFile | Unloadable | Object "(string \<times> 'a pyval) list"

text \<open>
  \<open>Storage\<close>: the dictionary \<open>_data\<close> and the file at \<open>path\<close>. \<open>User.settings\<close> is the
  very object \<open>_data['settings']\<close>, so once there is a user the settings live in one
  place, the field \<open>settings\<close> of \<open>User\<close>, and the entry of \<open>sdata\<close> under \<open>''settings''\<close>
  only keeps the position of the key.
\<close>

record 'a Storage =
  sdata :: "(string \<times> 'a pyval) list"
  disk :: "'a snapshot_file"

record 'a User =
  records :: "'a Record list"
  loans :: "'a LoanRecord list"
  settings :: "'a pyval"
  overcats :: "'a pyval list"
  storage :: "'a Storage"

section \<open>Storage\<close>

text \<open>
  \<open>d.update(e)\<close> for two dictionaries: a key of \<open>e\<close> that \<open>d\<close> has gets the new value in
  its place, a new key goes to the end.
\<close>

definition dict_update ::
  "(string \<times> 'v) list \<Rightarrow> (string \<times> 'v) list \<Rightarrow> (string \<times> 'v) list" where
  "dict_update d e = fold (\<lambda>(k, v). AList.update k v) e d"

definition default_settings :: "(string \<times> ('a::{zero,numeral}) pyval) list" where
  "default_settings =
     [(''initial_balance'', PyFloat 0),
      (''threshold_warn'', PyFloat 3000),
      (''threshold_urgent'', PyFloat 1000),
      (''reminder_enabled'', PyBool False),
      (''reminder_time'', PyStr ''20:00'')]"

definition default_data :: "(string \<times> ('a::{zero,numeral}) pyval) list" where
  "default_data =
     [(''records'', PyList []),
      (''loans'', PyList []),
      (''settings'', PyDict default_settings),
      (''overconsumption_categories'', PyList [])]"

text \<open>\<open>_load\<close>, on the dictionary \<open>_data\<close>; a failure is printed and nothing else.\<close>

fun load :: "'a snapshot_file \<Rightarrow> (string \<times> 'a pyval) list \<Rightarrow> (string \<times> 'a pyval) list" where
  "load NoFile d = d"
| "load Unloadable d = d"
| "load (Object kvs) d = dict_update d kvs"

text \<open>\<open>Storage.__init__\<close>.\<close>

definition Storage_init :: "('a::{zero,numeral}) snapshot_file \<Rightarrow> 'a Storage" where
  "Storage_init f = \<lparr>sdata = load f default_data, disk = f\<rparr>"

section \<open>Python containers\<close>

text \<open>
  Iteration: over the elements of a list, the characters of a string, the keys of a
  dictionary; a \<open>TypeError\<close> for the values that are not iterable.
\<close>

fun py_iter :: "'a pyval \<Rightarrow> error + 'a pyval list" where
  "py_iter (PyList xs) = Inr xs"
| "py_iter (PyStr s) = Inr (map (\<lambda>c. PyStr [c]) s)"
| "py_iter (PyDict kvs) = Inr (map (\<lambda>kv. PyStr (fst kv)) kvs)"
| "py_iter v = Inl TypeError"

text \<open>A list comprehension whose element expression can raise.\<close>

fun map_result :: "('x \<Rightarrow> error + 'y) \<Rightarrow> 'x list \<Rightarrow> error + 'y list" where
  "map_result f [] = Inr []"
| "map_result f (x # xs) =
     (case f x of
        Inl e \<Rightarrow> Inl e
      | Inr y \<Rightarrow> (case map_result f xs of Inl e \<Rightarrow> Inl e | Inr ys \<Rightarrow> Inr (y # ys)))"

text \<open>
  \<open>k in v\<close> for a string \<open>k\<close>: a key of a dictionary, an element of a list, a substring
  of a string.
\<close>

fun py_contains :: "'a pyval \<Rightarrow> string \<Rightarrow> error + bool" where
  "py_contains (PyDict kvs) k = Inr (k \<in> set (map fst kvs))"
| "py_contains (PyList xs) k = Inr (PyStr k \<in> set xs)"
| "py_contains (PyStr s) k = Inr (sublist k s)"
| "py_contains v k = Inl TypeError"

text \<open>\<open>all(key in data for key in keys)\<close>, which stops at the first key that is missing.\<close>

fun has_all_keys :: "'a pyval \<Rightarrow> string list \<Rightarrow> error + bool" where
  "has_all_keys d [] = Inr True"
| "has_all_keys d (k # ks) =
     (case py_contains d k of
        Inl e \<Rightarrow> Inl e
      | Inr b \<Rightarrow> if b then has_all_keys d ks else Inr False)"

text \<open>\<open>v[k]\<close> for a string \<open>k\<close>.\<close>

fun py_index :: "'a pyval \<Rightarrow> string \<Rightarrow> error + 'a pyval" where
  "py_index (PyDict kvs) k = (case map_of kvs k of Some v \<Rightarrow> Inr v | None \<Rightarrow> Inl KeyError)"
| "py_index v k = Inl TypeError"

text \<open>
  \<open>d.update(v)\<close> for any value \<open>v\<close>. A dictionary is merged key by key. Any other
  iterable is a sequence of pairs, each an iterable of length two, which are stored one
  after the other until one of them is no pair; the entries stored before the failure
  stay. The result is the dictionary and the exception, if any.
\<close>

fun hashable :: "'a pyval \<Rightarrow> bool" where
  "hashable (PyList xs) = False"
| "hashable (PyDict kvs) = False"
| "hashable v = True"

definition update_item :: "'a pyval \<Rightarrow> error + (string \<times> 'a pyval)" where
  "update_item item =
     (case py_iter item of
        Inl e \<Rightarrow> Inl TypeError
      | Inr xs \<Rightarrow>
          if length xs \<noteq> 2 then Inl ValueError
          else (case hd xs of
                  PyStr k \<Rightarrow> Inr (k, hd (tl xs))
                | key \<Rightarrow> if hashable key then Inl NotModelled else Inl TypeError))"

fun update_seq ::
  "(string \<times> 'a pyval) list \<Rightarrow> 'a pyval list \<Rightarrow> (string \<times> 'a pyval) list \<times> error option" where
  "update_seq d [] = (d, None)"
| "update_seq d (item # items) =
     (case update_item item of
        Inl e \<Rightarrow> (d, Some e)
      | Inr (k, v) \<Rightarrow> update_seq (AList.update k v d) items)"

definition py_update ::
  "(string \<times> 'a pyval) list \<Rightarrow> 'a pyval \<Rightarrow> (string \<times> 'a pyval) list \<times> error option" where
  "py_update d v =
     (case v of
        PyDict e \<Rightarrow> (dict_update d e, None)
      | _ \<Rightarrow> (case py_iter v of
                Inl e \<Rightarrow> (d, Some e)
              | Inr items \<Rightarrow> update_seq d items))"

text \<open>
  A Python set is the list of its elements, each once; the order in which Python
  iterates over a set is not specified, and nothing below depends on the order kept
  here. Two elements are the same when they are equal for \<open>==\<close>: a bool is the int 0
  or 1, and a float that is equal to an int is that int.
\<close>

fun key_norm :: "'a floats \<Rightarrow> 'a pyval \<Rightarrow> 'a pyval" where
  "key_norm fl (PyBool b) = PyInt (if b then 1 else 0)"
| "key_norm fl (PyFloat x) = (case int_of_float fl x of Some i \<Rightarrow> PyInt i | None \<Rightarrow> PyFloat x)"
| "key_norm fl v = v"

definition py_in :: "'a floats \<Rightarrow> ('a::{zero,one}) pyval \<Rightarrow> 'a pyval list \<Rightarrow> bool" where
  "py_in fl x xs = (key_norm fl x \<in> set (map (key_norm fl) xs))"


fun set_of_items ::
  "'a floats \<Rightarrow> ('a::{zero,one}) pyval list \<Rightarrow> 'a pyval list \<Rightarrow> error + 'a pyval list" where
  "set_of_items fl s [] = Inr s"
| "set_of_items fl s (x # xs) =
     (if hashable x then set_of_items fl (if py_in fl x s then s else s @ [x]) xs
      else Inl TypeError)"

text \<open>\<open>set(v)\<close>.\<close>

definition py_set :: "'a floats \<Rightarrow> ('a::{zero,one}) pyval \<Rightarrow> error + 'a pyval list" where
  "py_set fl v = (case py_iter v of Inl e \<Rightarrow> Inl e | Inr xs \<Rightarrow> set_of_items fl [] xs)"

text \<open>The truth value of an optional string, as in \<open>if start:\<close> and \<open>timestamp or now_iso()\<close>:
  neither \<open>None\<close> nor the empty string.\<close>

fun truthy :: "string option \<Rightarrow> bool" where
  "truthy None = False"
| "truthy (Some s) = (s \<noteq> [])"

section \<open>Records as dictionaries\<close>

definition record_fields :: "string list" where
  "record_fields =
     [''id'', ''amount'', ''kind'', ''category'', ''timestamp'', ''note'',
      ''overconsumption_mark'']"

text \<open>\<open>asdict(self)\<close>: the seven fields, in the order of their declaration.\<close>

definition to_dict :: "'a Record \<Rightarrow> 'a pyval" where
  "to_dict r =
     PyDict [(''id'', rec_id r), (''amount'', amount r), (''kind'', kind r),
             (''category'', category r), (''timestamp'', timestamp r),
             (''note'', rec_note r), (''overconsumption_mark'', overconsumption_mark r)]"

text \<open>
  \<open>Record.from_dict(d)\<close>, that is \<open>Record(**d)\<close>: \<open>d\<close> must be a dictionary, each of its
  keys the name of a field, and the five fields without a default must be there. The
  values are taken as they are.
\<close>

fun from_dict :: "'a pyval \<Rightarrow> error + 'a Record" where
  "from_dict (PyDict kvs) =
     (if list_ex (\<lambda>k. k \<notin> set record_fields) (map fst kvs) then Inl TypeError
      else
        (case (map_of kvs ''id'', map_of kvs ''amount'', map_of kvs ''kind'',
               map_of kvs ''category'', map_of kvs ''timestamp'') of
           (Some i, Some a, Some k, Some c, Some t) \<Rightarrow>
             Inr \<lparr>rec_id = i, amount = a, kind = k, category = c, timestamp = t,
                  rec_note = (case map_of kvs ''note'' of Some n \<Rightarrow> n | None \<Rightarrow> PyStr []),
                  overconsumption_mark =
                    (case map_of kvs ''overconsumption_mark'' of
                       Some m \<Rightarrow> m | None \<Rightarrow> PyBool False)\<rparr>
         | _ \<Rightarrow> Inl TypeError))"
| "from_dict v = Inl TypeError"

definition loan_fields :: "string list" where
  "loan_fields =
     [''id'', ''name'', ''amount'', ''loan_date'', ''due_date'', ''repaid'', ''note'']"

definition loan_to_dict :: "'a LoanRecord \<Rightarrow> 'a pyval" where
  "loan_to_dict l =
     PyDict [(''id'', loan_id l), (''name'', loan_name l), (''amount'', loan_amount l),
             (''loan_date'', loan_date l), (''due_date'', due_date l),
             (''repaid'', repaid l), (''note'', loan_note l)]"

fun loan_from_dict :: "'a pyval \<Rightarrow> error + 'a LoanRecord" where
  "loan_from_dict (PyDict kvs) =
     (if list_ex (\<lambda>k. k \<notin> set loan_fields) (map fst kvs) then Inl TypeError
      else
        (case (map_of kvs ''id'', map_of kvs ''name'', map_of kvs ''amount'',
               map_of kvs ''loan_date'') of
           (Some i, Some n, Some a, Some d) \<Rightarrow>
             Inr \<lparr>loan_id = i, loan_name = n, loan_amount = a, loan_date = d,
                  due_date = (case map_of kvs ''due_date'' of Some x \<Rightarrow> x | None \<Rightarrow> PyNone),
                  repaid = (case map_of kvs ''repaid'' of Some x \<Rightarrow> x | None \<Rightarrow> PyBool False),
                  loan_note = (case map_of kvs ''note'' of Some x \<Rightarrow> x | None \<Rightarrow> PyStr [])\<rparr>
         | _ \<Rightarrow> Inl TypeError))"
| "loan_from_dict v = Inl TypeError"

section \<open>Persisting the account\<close>

text \<open>
  The dictionary \<open>_data\<close> as \<open>json.dump\<close> sees it: the settings are those of the user.
  \<open>save\<close> writes it to the file; a failure of the write is printed by \<open>save\<close> and changes
  nothing else, and is left out here.
\<close>

definition data_view :: "'a User \<Rightarrow> (string \<times> 'a pyval) list" where
  "data_view u = AList.update ''settings'' (settings u) (sdata (storage u))"

definition save :: "'a User \<Rightarrow> 'a User" where
  "save u = u\<lparr>storage := (storage u)\<lparr>disk := Object (data_view u)\<rparr>\<rparr>"

definition set_data :: "string \<Rightarrow> 'a pyval \<Rightarrow> 'a User \<Rightarrow> 'a User" where
  "set_data k v u = u\<lparr>storage := (storage u)\<lparr>sdata := AList.update k v (sdata (storage u))\<rparr>\<rparr>"

definition set_records :: "'a Record list \<Rightarrow> 'a User \<Rightarrow> 'a User" where
  "set_records recs u = save (set_data ''records'' (PyList (map to_dict recs)) u)"

definition set_loans :: "'a LoanRecord list \<Rightarrow> 'a User \<Rightarrow> 'a User" where
  "set_loans ls u = save (set_data ''loans'' (PyList (map loan_to_dict ls)) u)"

text \<open>
  \<open>update_settings(self.settings)\<close> updates the settings dictionary with itself, which
  changes nothing, and saves.
\<close>

definition update_settings :: "'a User \<Rightarrow> error + 'a User" where
  "update_settings u =
     (case settings u of PyDict kvs \<Rightarrow> Inr (save u) | _ \<Rightarrow> Inl AttributeError)"

definition set_overconsumption_categories :: "'a pyval list \<Rightarrow> 'a User \<Rightarrow> 'a User" where
  "set_overconsumption_categories cats u =
     save (set_data ''overconsumption_categories'' (PyList cats) u)"

section \<open>User.__init__\<close>

text \<open>\<open>d.get(k, default)\<close> on the dictionary \<open>_data\<close>.\<close>

definition data_get :: "(string \<times> 'a pyval) list \<Rightarrow> string \<Rightarrow> 'a pyval \<Rightarrow> 'a pyval" where
  "data_get d k dflt = (case map_of d k of Some v \<Rightarrow> v | None \<Rightarrow> dflt)"

definition User_init :: "'a floats \<Rightarrow> ('a::{zero,one}) Storage \<Rightarrow> error + 'a User" where
  "User_init fl st =
     (case py_iter (data_get (sdata st) ''records'' (PyList [])) of Inl e \<Rightarrow> Inl e | Inr ds \<Rightarrow>
      case map_result from_dict ds of Inl e \<Rightarrow> Inl e | Inr recs \<Rightarrow>
      case py_iter (data_get (sdata st) ''loans'' (PyList [])) of Inl e \<Rightarrow> Inl e | Inr ds' \<Rightarrow>
      case map_result loan_from_dict ds' of Inl e \<Rightarrow> Inl e | Inr ls \<Rightarrow>
      case py_set fl (data_get (sdata st) ''overconsumption_categories'' (PyList [])) of
        Inl e \<Rightarrow> Inl e
      | Inr cats \<Rightarrow>
          Inr \<lparr>records = recs, loans = ls,
               settings = data_get (sdata st) ''settings'' (PyDict []),
               overcats = cats, storage = st\<rparr>)"

section \<open>User: settings, backup and restore\<close>

text \<open>\<open>set_initial_balance(amount)\<close>; after an exception the account is as it was.\<close>

definition set_initial_balance ::
  "'a floats \<Rightarrow> ('a::{zero,one}) pyval \<Rightarrow> 'a User \<Rightarrow> error + 'a User" where
  "set_initial_balance fl amt u =
     (case py_float fl amt of
        Inl e \<Rightarrow> Inl e
      | Inr x \<Rightarrow>
          (case settings u of
             PyDict kvs \<Rightarrow>
               update_settings (u\<lparr>settings := PyDict (AList.update ''initial_balance'' (PyFloat x) kvs)\<rparr>)
           | _ \<Rightarrow> Inl TypeError))"

text \<open>
  \<open>create_backup\<close>, at the time \<open>now\<close>: the JSON value written to the backup file, or
  the exception that wraps the failure to write it (\<open>writable\<close> tells whether the file
  can be written). The name of the file plays no part.
\<close>

definition create_backup :: "string \<Rightarrow> bool \<Rightarrow> 'a User \<Rightarrow> error + 'a pyval" where
  "create_backup now writable u =
     (let backup_data =
        PyDict
          [(''records'', PyList (map to_dict (records u))),
           (''loans'', PyList (map loan_to_dict (loans u))),
           (''settings'', settings u),
           (''overconsumption_categories'', PyList (overcats u)),
           (''backup_time'', PyStr now),
           (''version'', PyStr ''1.0'')]
      in if writable then Inr backup_data else Inl (BackupFailed OSError))"

text \<open>What \<open>open\<close> and \<open>json.load\<close> make of the backup file.\<close>

datatype 'a read_result = OpenFails | ParseFails | Parsed "'a pyval"

text \<open>The steps of \<open>restore_from_backup\<close> that read the two sequences.\<close>

definition read_records :: "'a pyval \<Rightarrow> error + 'a Record list" where
  "read_records backup_data =
     (case py_index backup_data ''records'' of Inl e \<Rightarrow> Inl e | Inr v \<Rightarrow>
      case py_iter v of Inl e \<Rightarrow> Inl e | Inr ds \<Rightarrow> map_result from_dict ds)"

definition read_loans :: "'a pyval \<Rightarrow> error + 'a LoanRecord list" where
  "read_loans backup_data =
     (case py_index backup_data ''loans'' of Inl e \<Rightarrow> Inl e | Inr v \<Rightarrow>
      case py_iter v of Inl e \<Rightarrow> Inl e | Inr ds \<Rightarrow> map_result loan_from_dict ds)"

text \<open>
  \<open>restore_from_backup\<close>: the account after the call, and the value returned or the
  exception raised. Each assignment of the source is a new state, so an exception
  leaves the account as the assignments before it made it.
\<close>

definition restore_from_backup ::
  "'a floats \<Rightarrow> ('a::{zero,one}) read_result \<Rightarrow> 'a User \<Rightarrow> 'a User \<times> (error + bool)" where
  "restore_from_backup fl f u =
     (case f of
        OpenFails \<Rightarrow> (u, Inl (RestoreFailed OSError))
      | ParseFails \<Rightarrow> (u, Inl (RestoreFailed JSONDecodeError))
      | Parsed backup_data \<Rightarrow>
     (case has_all_keys backup_data [''records'', ''loans'', ''settings''] of
        Inl e \<Rightarrow> (u, Inl (RestoreFailed e))
      | Inr False \<Rightarrow> (u, Inl (RestoreFailed InvalidBackupFormat))
      | Inr True \<Rightarrow>
     (case read_records backup_data of
        Inl e \<Rightarrow> (u, Inl (RestoreFailed e))
      | Inr recs \<Rightarrow>
     (let u1 = u\<lparr>records := recs\<rparr> in
      case read_loans backup_data of
        Inl e \<Rightarrow> (u1, Inl (RestoreFailed e))
      | Inr ls \<Rightarrow>
     (let u2 = u1\<lparr>loans := ls\<rparr> in
      case settings u2 of
        PyDict kvs \<Rightarrow>
          (case py_index backup_data ''settings'' of
             Inl e \<Rightarrow> (u2, Inl (RestoreFailed e))
           | Inr sv \<Rightarrow>
          (let (kvs', err) = py_update kvs sv;
               u3 = u2\<lparr>settings := PyDict kvs'\<rparr>
           in case err of
                Some e \<Rightarrow> (u3, Inl (RestoreFailed e))
              | None \<Rightarrow>
          (case (case py_contains backup_data ''overconsumption_categories'' of
                   Inl e \<Rightarrow> Inl e
                 | Inr False \<Rightarrow> Inr (overcats u3)
                 | Inr True \<Rightarrow>
                     (case py_index backup_data ''overconsumption_categories'' of
                        Inl e \<Rightarrow> Inl e
                      | Inr cv \<Rightarrow> py_set fl cv)) of
             Inl e \<Rightarrow> (u3, Inl (RestoreFailed e))
           | Inr cats \<Rightarrow>
          (let u4 = u3\<lparr>overcats := cats\<rparr>;
               u5 = set_records (records u4) u4;
               u6 = set_loans (loans u5) u5
           in case update_settings u6 of
                Inl e \<Rightarrow> (u6, Inl (RestoreFailed e))
              | Inr u7 \<Rightarrow>
                  (set_overconsumption_categories (overcats u7) u7, Inr True)))))
      | _ \<Rightarrow> (u2, Inl (RestoreFailed AttributeError)))))))"

section \<open>User: records\<close>






section \<open>User.get_balance\<close>

fun balance_loop :: "'a floats \<Rightarrow> 'a \<Rightarrow> ('a::{zero,one,plus,minus}) Record list \<Rightarrow> error + 'a" where
  "balance_loop fl bal [] = Inr bal"
| "balance_loop fl bal (r # rs) =
     (if kind r = PyStr ''income''
      then (case float_iadd fl bal (amount r) of Inl e \<Rightarrow> Inl e | Inr b \<Rightarrow> balance_loop fl b rs)
      else (case float_isub fl bal (amount r) of Inl e \<Rightarrow> Inl e | Inr b \<Rightarrow> balance_loop fl b rs))"

definition initial_balance :: "'a floats \<Rightarrow> ('a::{zero,one}) User \<Rightarrow> error + 'a" where
  "initial_balance fl u =
     (case py_get (settings u) ''initial_balance'' (PyFloat 0) of
        Inl e \<Rightarrow> Inl e
      | Inr v \<Rightarrow> py_float fl v)"

definition get_balance ::
  "'a floats \<Rightarrow> ('a::{zero,one,plus,minus}) User \<Rightarrow> error + 'a" where
  "get_balance fl u =
     (case initial_balance fl u of
        Inl e \<Rightarrow> Inl e
      | Inr bal \<Rightarrow> balance_loop fl bal (records u))"

section \<open>ReminderService.check_thresholds\<close>

record Reminder =
  warned_low :: bool
  warned_urgent :: bool

text \<open>
  \<open>_notify(kind, message)\<close> hands the kind and a message that prints the balance to
  the listener; an emitted notification is the pair of the kind and the balance.
\<close>

type_synonym 'a notification = "string \<times> 'a"

definition threshold :: "'a floats \<Rightarrow> ('a::{zero,one}) User \<Rightarrow> string \<Rightarrow> 'a \<Rightarrow> error + 'a" where
  "threshold fl u k d =
     (case py_get (settings u) k (PyFloat d) of
        Inl e \<Rightarrow> Inl e
      | Inr v \<Rightarrow> py_float fl v)"

definition check_thresholds ::
  "'a floats \<Rightarrow> ('a::{zero,one,plus,minus,numeral,ord}) User \<Rightarrow> Reminder
     \<Rightarrow> error + ('a notification list \<times> Reminder)" where
  "check_thresholds fl u s =
     (case get_balance fl u of Inl e \<Rightarrow> Inl e | Inr bal \<Rightarrow>
      case threshold fl u ''threshold_warn'' 3000 of Inl e \<Rightarrow> Inl e | Inr warn \<Rightarrow>
      case threshold fl u ''threshold_urgent'' 1000 of Inl e \<Rightarrow> Inl e | Inr urgent \<Rightarrow>
        if bal \<le> urgent then
          (let (out, s1) =
                 (if \<not> warned_urgent s
                  then ([(''urgent'', bal)], s\<lparr>warned_urgent := True\<rparr>)
                  else ([], s))
           in Inr (out, s1\<lparr>warned_low := True\<rparr>))
        else if bal \<le> warn then
          (let (out, s1) =
                 (if \<not> warned_low s
                  then ([(''warn'', bal)], s\<lparr>warned_low := True\<rparr>)
                  else ([], s))
           in Inr (out, s1\<lparr>warned_urgent := False\<rparr>))
        else Inr ([], s\<lparr>warned_low := False, warned_urgent := False\<rparr>))"

section \<open>Statistics\<close>

text \<open>
  \<open>[r for r in recs if r.timestamp >= start]\<close>: the strings are compared
  lexicographically; comparing a timestamp that is no string with the bound is a
  \<open>TypeError\<close>.
\<close>

fun filter_ts :: "(string \<Rightarrow> bool) \<Rightarrow> 'a Record list \<Rightarrow> error + 'a Record list" where
  "filter_ts p [] = Inr []"
| "filter_ts p (r # rs) =
     (case timestamp r of
        PyStr t \<Rightarrow>
          (case filter_ts p rs of
             Inl e \<Rightarrow> Inl e
           | Inr ys \<Rightarrow> Inr (if p t then r # ys else ys))
      | _ \<Rightarrow> Inl TypeError)"

definition filter_records ::
  "string option \<Rightarrow> string option \<Rightarrow> 'a User \<Rightarrow> error + 'a Record list" where
  "filter_records start fin u =
     (case (if truthy start then filter_ts (\<lambda>t. t \<ge> the start) (records u)
            else Inr (records u)) of
        Inl e \<Rightarrow> Inl e
      | Inr recs \<Rightarrow>
          if truthy fin then filter_ts (\<lambda>t. t < the fin) recs else Inr recs)"

text \<open>The loop of \<open>totals\<close> and of \<open>monthly_series\<close>, on the pair of the two sums.\<close>

fun totals_loop ::
  "'a floats \<Rightarrow> 'a \<times> 'a \<Rightarrow> ('a::{zero,one,plus}) Record list \<Rightarrow> error + ('a \<times> 'a)" where
  "totals_loop fl (income, expense) [] = Inr (income, expense)"
| "totals_loop fl (income, expense) (r # rs) =
     (if kind r = PyStr ''income''
      then (case float_iadd fl income (amount r) of
              Inl e \<Rightarrow> Inl e | Inr i \<Rightarrow> totals_loop fl (i, expense) rs)
      else (case float_iadd fl expense (amount r) of
              Inl e \<Rightarrow> Inl e | Inr x \<Rightarrow> totals_loop fl (income, x) rs))"

text \<open>The dictionary that \<open>totals\<close> returns, with its three keys.\<close>

record 'a Totals =
  income :: 'a
  expense :: 'a
  balance :: 'a

definition totals ::
  "'a floats \<Rightarrow> string option \<Rightarrow> string option
     \<Rightarrow> ('a::{zero,one,plus,minus}) User \<Rightarrow> error + 'a Totals" where
  "totals fl start fin u =
     (case filter_records start fin u of Inl e \<Rightarrow> Inl e | Inr recs \<Rightarrow>
      case totals_loop fl (0, 0) recs of Inl e \<Rightarrow> Inl e | Inr (inc, expn) \<Rightarrow>
      case initial_balance fl u of Inl e \<Rightarrow> Inl e | Inr init \<Rightarrow>
        Inr \<lparr>income = inc, expense = expn, balance = inc - expn + init\<rparr>)"



















section \<open>Well-typed records\<close>

text \<open>
  The values that \<open>+=\<close> and \<open>-=\<close> accept on a float (a float, a bool, an int that has
  a float), and the float they stand for.
\<close>

fun numeric :: "'a floats \<Rightarrow> 'a pyval \<Rightarrow> bool" where
  "numeric fl (PyFloat x) = True"
| "numeric fl (PyInt i) = (float_of_int fl i \<noteq> None)"
| "numeric fl (PyBool b) = True"
| "numeric fl v = False"

fun num_of :: "'a floats \<Rightarrow> ('a::{zero,one}) pyval \<Rightarrow> 'a" where
  "num_of fl (PyFloat x) = x"
| "num_of fl (PyInt i) = (case float_of_int fl i of Some x \<Rightarrow> x | None \<Rightarrow> 0)"
| "num_of fl (PyBool b) = (if b then 1 else 0)"
| "num_of fl v = 0"

definition is_income :: "'a Record \<Rightarrow> bool" where
  "is_income r = (kind r = PyStr ''income'')"

definition is_expense :: "'a Record \<Rightarrow> bool" where
  "is_expense r = (kind r = PyStr ''expense'')"

text \<open>The sum of the amounts of the records that satisfy \<open>p\<close>.\<close>

definition amount_sum :: "'a floats \<Rightarrow> ('a Record \<Rightarrow> bool) \<Rightarrow> ('a::{one,monoid_add}) Record list \<Rightarrow> 'a" where
  "amount_sum fl p rs = sum_list (map (\<lambda>r. num_of fl (amount r)) (filter p rs))"

text \<open>
  The balance as the specification states it: the initial balance plus the sum of the
  amounts of the income records minus the sum of the amounts of the expense records,
  each sum taken from 0 in the order of the records.
\<close>

definition stated_balance :: "'a floats \<Rightarrow> ('a::{zero,one,plus,minus}) User \<Rightarrow> error + 'a" where
  "stated_balance fl u =
     (case initial_balance fl u of
        Inl e \<Rightarrow> Inl e
      | Inr init \<Rightarrow>
          Inr (init
               + foldl (+) 0 (map (\<lambda>r. num_of fl (amount r)) (filter is_income (records u)))
               - foldl (+) 0 (map (\<lambda>r. num_of fl (amount r)) (filter is_expense (records u)))))"

text \<open>
  The invariant of a Python set: its elements can be hashed and no two of them are
  equal.
\<close>

definition is_pyset :: "'a floats \<Rightarrow> ('a::{zero,one}) pyval list \<Rightarrow> bool" where
  "is_pyset fl xs = (list_all hashable xs \<and> distinct (map (key_norm fl) xs))"










section \<open>Example states\<close>

text \<open>
  An account with an initial balance of 5000, one expense of 3000, the warning
  threshold stored and the urgent threshold left to its default.
\<close>

definition poll_user :: "('a::{zero,numeral}) User" where
  "poll_user =
     \<lparr>records =
        [\<lparr>rec_id = PyStr ''a'', amount = PyFloat 3000, kind = PyStr ''expense'',
          category = PyStr ''rent'', timestamp = PyStr ''2025-01-02T12:00:00'',
          rec_note = PyStr [], overconsumption_mark = PyBool False\<rparr>],
      loans = [],
      settings = PyDict [(''initial_balance'', PyFloat 5000), (''threshold_warn'', PyFloat 3000)],
      overcats = [],
      storage = \<lparr>sdata = [], disk = NoFile\<rparr>\<rparr>"

text \<open>The account of \<^verbatim>\<open>test_get_balance_with_records\<close>.\<close>

definition balance_user :: "('a::{zero,numeral}) User" where
  "balance_user =
     \<lparr>records =
        [\<lparr>rec_id = PyStr ''1'', amount = PyFloat 200, kind = PyStr ''income'',
          category = PyStr ''salary'', timestamp = PyStr ''2025-01-01T12:00:00'',
          rec_note = PyStr [], overconsumption_mark = PyBool False\<rparr>,
         \<lparr>rec_id = PyStr ''2'', amount = PyFloat 150, kind = PyStr ''expense'',
          category = PyStr ''food'', timestamp = PyStr ''2025-01-02T12:00:00'',
          rec_note = PyStr [], overconsumption_mark = PyBool False\<rparr>],
      loans = [],
      settings = PyDict [(''initial_balance'', PyFloat 500)],
      overcats = [],
      storage = \<lparr>sdata = [], disk = NoFile\<rparr>\<rparr>"

text \<open>The same account with the kind of the second record misspelt.\<close>

definition misspelt_user :: "('a::{zero,numeral}) User" where
  "misspelt_user =
     balance_user\<lparr>records :=
        [\<lparr>rec_id = PyStr ''1'', amount = PyFloat 200, kind = PyStr ''income'',
          category = PyStr ''salary'', timestamp = PyStr ''2025-01-01T12:00:00'',
          rec_note = PyStr [], overconsumption_mark = PyBool False\<rparr>,
         \<lparr>rec_id = PyStr ''2'', amount = PyFloat 150, kind = PyStr ''expnse'',
          category = PyStr ''food'', timestamp = PyStr ''2025-01-02T12:00:00'',
          rec_note = PyStr [], overconsumption_mark = PyBool False\<rparr>]\<rparr>"


text \<open>
  An account of floats: an initial balance of \<open>2^53\<close> and two incomes of 1.
\<close>

definition float_user :: "double User" where
  "float_user =
     \<lparr>records =
        [\<lparr>rec_id = PyStr ''1'', amount = PyFloat (Finite 1), kind = PyStr ''income'',
          category = PyStr ''salary'', timestamp = PyStr ''2025-01-01T12:00:00'',
          rec_note = PyStr [], overconsumption_mark = PyBool False\<rparr>,
         \<lparr>rec_id = PyStr ''2'', amount = PyFloat (Finite 1), kind = PyStr ''income'',
          category = PyStr ''salary'', timestamp = PyStr ''2025-01-02T12:00:00'',
          rec_note = PyStr [], overconsumption_mark = PyBool False\<rparr>],
      loans = [],
      settings = PyDict [(''initial_balance'', PyFloat (Finite 9007199254740992))],
      overcats = [],
      storage = \<lparr>sdata = [], disk = NoFile\<rparr>\<rparr>"

text \<open>
  The account of \<^verbatim>\<open>test_get_balance_with_records\<close> as the program holds it, with
  binary64 floats, and the same with the kind of the second record misspelt.
\<close>

definition float_balance_user :: "double User" where
  "float_balance_user =
     \<lparr>records =
        [\<lparr>rec_id = PyStr ''1'', amount = PyFloat (Finite 200), kind = PyStr ''income'',
          category = PyStr ''salary'', timestamp = PyStr ''2025-01-01T12:00:00'',
          rec_note = PyStr [], overconsumption_mark = PyBool False\<rparr>,
         \<lparr>rec_id = PyStr ''2'', amount = PyFloat (Finite 150), kind = PyStr ''expense'',
          category = PyStr ''food'', timestamp = PyStr ''2025-01-02T12:00:00'',
          rec_note = PyStr [], overconsumption_mark = PyBool False\<rparr>],
      loans = [],
      settings = PyDict [(''initial_balance'', PyFloat (Finite 500))],
      overcats = [],
      storage = \<lparr>sdata = [], disk = NoFile\<rparr>\<rparr>"

definition float_misspelt_user :: "double User" where
  "float_misspelt_user =
     float_balance_user\<lparr>records :=
        [\<lparr>rec_id = PyStr ''1'', amount = PyFloat (Finite 200), kind = PyStr ''income'',
          category = PyStr ''salary'', timestamp = PyStr ''2025-01-01T12:00:00'',
          rec_note = PyStr [], overconsumption_mark = PyBool False\<rparr>,
         \<lparr>rec_id = PyStr ''2'', amount = PyFloat (Finite 150), kind = PyStr ''expnse'',
          category = PyStr ''food'', timestamp = PyStr ''2025-01-02T12:00:00'',
          rec_note = PyStr [], overconsumption_mark = PyBool False\<rparr>]\<rparr>"

text \<open>A snapshot file that holds a settings object with one key and nothing else.\<close>

definition partial_snapshot :: "(string \<times> ('a::{zero,numeral}) pyval) list" where
  "partial_snapshot = [(''settings'', PyDict [(''initial_balance'', PyFloat 5)])]"

text \<open>
  A backup file without the key \<open>settings\<close>.
\<close>

definition short_backup :: "(string \<times> 'a pyval) list" where
  "short_backup = [(''records'', PyList []), (''loans'', PyList [])]"

text \<open>
  The account that \<open>User.__init__\<close> builds from a snapshot file whose settings object
  is empty; the backup made of it; and the account after \<open>set_initial_balance(100)\<close>.
\<close>

definition bare_file :: "(string \<times> 'a pyval) list" where
  "bare_file = [(''settings'', PyDict [])]"

definition bare_user :: "('a::{zero,numeral}) User" where
  "bare_user =
     \<lparr>records = [], loans = [], settings = PyDict [], overcats = [],
      storage = Storage_init (Object bare_file)\<rparr>"

definition bare_backup :: "'a pyval" where
  "bare_backup =
     PyDict [(''records'', PyList []), (''loans'', PyList []), (''settings'', PyDict []),
             (''overconsumption_categories'', PyList []),
             (''backup_time'', PyStr ''2025-01-03T09:00:00''), (''version'', PyStr ''1.0'')]"

definition live_user :: "('a::{zero,numeral}) User" where
  "live_user = save (bare_user\<lparr>settings := PyDict [(''initial_balance'', PyFloat 100)]\<rparr>)"



section \<open>Properties\<close>

subsection \<open>Loading the store\<close>

lemma map_of_dict_update:
  "distinct (map fst e) \<Longrightarrow> map_of (dict_update d e) = map_of d ++ map_of e"
proof (induction e arbitrary: d)
  case Nil
  then show ?case by (simp add: dict_update_def)
next
  case (Cons kv e)
  obtain k v where kv: "kv = (k, v)" by (cases kv)
  from Cons.prems kv have d: "distinct (map fst e)" and nk: "k \<notin> fst ` set e" by auto
  have "map_of (dict_update d (kv # e)) = map_of (dict_update (AList.update k v d) e)"
    by (simp add: dict_update_def kv)
  also have "\<dots> = map_of (AList.update k v d) ++ map_of e"
    by (rule Cons.IH [OF d])
  also have "\<dots> = map_of d ++ map_of (kv # e)"
  proof -
    have "map_of e k = None"
      using nk by (simp add: map_of_eq_None_iff)
    then show ?thesis
      by (auto simp: kv update_conv' map_add_def fun_eq_iff split: option.splits)
  qed
  finally show ?case .
qed

text \<open>
  C5. When the snapshot file does not exist the loaded state is the default snapshot:
  no records, no loans, the settings \<open>initial_balance = 0\<close>, \<open>threshold_warn = 3000\<close>,
  \<open>threshold_urgent = 1000\<close>, \<open>reminder_enabled = false\<close>, \<open>reminder_time = "20:00"\<close>,
  and no category. When the file holds a JSON object, a top-level key of the file has
  the value of the file, whole, and every other key has its default value.
\<close>

theorem load_shallow_merge:
  fixes kvs :: "(string \<times> ('a::{zero,numeral}) pyval) list"
  assumes "distinct (map fst kvs)"
  shows "sdata (Storage_init (NoFile :: 'a snapshot_file)) = default_data
     \<and> (default_data :: (string \<times> 'a pyval) list) =
         [(''records'', PyList []), (''loans'', PyList []),
          (''settings'', PyDict
             [(''initial_balance'', PyFloat 0), (''threshold_warn'', PyFloat 3000),
              (''threshold_urgent'', PyFloat 1000), (''reminder_enabled'', PyBool False),
              (''reminder_time'', PyStr ''20:00'')]),
          (''overconsumption_categories'', PyList [])]
     \<and> (\<forall>k. map_of (sdata (Storage_init (Object kvs))) k =
            (case map_of kvs k of Some v \<Rightarrow> Some v | None \<Rightarrow> map_of default_data k))"
  using assms
  by (auto simp: Storage_init_def map_of_dict_update map_add_def default_data_def
      default_settings_def split: option.splits)

theorem load_shallow_merge_witness:
  "distinct (map fst (partial_snapshot :: (string \<times> rat pyval) list))
   \<and> map_of (sdata (Storage_init (Object (partial_snapshot :: (string \<times> rat pyval) list))))
        ''settings'' = Some (PyDict [(''initial_balance'', PyFloat 5)])
   \<and> map_of (sdata (Storage_init (Object (partial_snapshot :: (string \<times> rat pyval) list))))
        ''records'' = Some (PyList [])"
proof -
  have d: "distinct (map fst (partial_snapshot :: (string \<times> rat pyval) list))"
    by (simp add: partial_snapshot_def)
  from load_shallow_merge [OF d] d show ?thesis
    by (simp add: partial_snapshot_def default_data_def)
qed

subsection \<open>Backup and restore\<close>

lemma has_all_keys_dict:
  "has_all_keys (PyDict kvs) ks = Inr (set ks \<subseteq> set (map fst kvs))"
  by (induction ks) auto

text \<open>
  C3. When the top-level keys of the backup file lack one of \<open>records\<close>, \<open>loans\<close>,
  \<open>settings\<close>, \<open>restore_from_backup\<close> raises the exception that wraps the validation
  error, and the account (records, loans, settings, category set, store) is as it was
  before the call.
\<close>

theorem restore_missing_key:
  assumes "\<not> set [''records'', ''loans'', ''settings''] \<subseteq> set (map fst kvs)"
  shows "restore_from_backup fl (Parsed (PyDict kvs)) u
           = (u, Inl (RestoreFailed InvalidBackupFormat))"
proof -
  have "has_all_keys (PyDict kvs) [''records'', ''loans'', ''settings''] = Inr False"
    using assms by (simp add: has_all_keys_dict del: has_all_keys.simps)
  then show ?thesis
    by (simp only: restore_from_backup_def read_result.case sum.case bool.case)
qed

theorem restore_missing_key_witness:
  "\<not> set [''records'', ''loans'', ''settings'']
        \<subseteq> set (map fst (short_backup :: (string \<times> rat pyval) list))
   \<and> restore_from_backup (exact (\<lambda>s. None)) (Parsed (PyDict short_backup)) (balance_user :: rat User)
       = (balance_user, Inl (RestoreFailed InvalidBackupFormat))"
proof -
  have m: "\<not> set [''records'', ''loans'', ''settings'']
        \<subseteq> set (map fst (short_backup :: (string \<times> rat pyval) list))"
    by (simp add: short_backup_def)
  from restore_missing_key [OF m] m show ?thesis by blast
qed

lemma from_dict_to_dict: "from_dict (to_dict r) = Inr r"
  by (simp add: to_dict_def record_fields_def)

lemma map_result_from_dict:
  "map_result from_dict (map to_dict rs) = Inr rs"
  by (induction rs) (simp_all add: from_dict_to_dict del: from_dict.simps)

lemma loan_from_dict_to_dict: "loan_from_dict (loan_to_dict l) = Inr l"
  by (simp add: loan_to_dict_def loan_fields_def)

lemma map_result_loan_from_dict:
  "map_result loan_from_dict (map loan_to_dict ls) = Inr ls"
  by (induction ls) (simp_all add: loan_from_dict_to_dict del: loan_from_dict.simps)

lemma set_of_items_distinct:
  assumes "\<forall>x\<in>set xs. hashable x" and "distinct (map (key_norm fl) (s @ xs))"
  shows "set_of_items fl s xs = Inr (s @ xs)"
  using assms
proof (induction xs arbitrary: s)
  case Nil
  then show ?case by simp
next
  case (Cons x xs)
  from Cons.prems have "\<not> py_in fl x s"
    by (auto simp: py_in_def)
  moreover from Cons.prems have "set_of_items fl (s @ [x]) xs = Inr ((s @ [x]) @ xs)"
    by (intro Cons.IH) auto
  ultimately show ?case using Cons.prems by simp
qed

lemma py_set_list: "is_pyset fl xs \<Longrightarrow> py_set fl (PyList xs) = Inr xs"
  using set_of_items_distinct [where xs = xs and s = "[]" and fl = fl]
  by (simp add: py_set_def is_pyset_def list_all_iff)

lemma create_backup_Inr:
  assumes "create_backup now w S = Inr file"
  shows "file = PyDict
            [(''records'', PyList (map to_dict (records S))),
             (''loans'', PyList (map loan_to_dict (loans S))),
             (''settings'', settings S),
             (''overconsumption_categories'', PyList (overcats S)),
             (''backup_time'', PyStr now),
             (''version'', PyStr ''1.0'')]"
  using assms
  by (auto simp: create_backup_def split: if_splits)

lemma restore_backup_state:
  fixes S L :: "('a::{zero,one}) User"
  assumes "create_backup now w S = Inr file"
    and "settings S = PyDict skvs"
    and "is_pyset fl (overcats S)"
    and "settings L = PyDict lkvs"
  shows "snd (restore_from_backup fl (Parsed file) L) = Inr True
     \<and> records (fst (restore_from_backup fl (Parsed file) L))
         = records S
     \<and> loans (fst (restore_from_backup fl (Parsed file) L)) = loans S
     \<and> settings (fst (restore_from_backup fl (Parsed file) L)) = PyDict (dict_update lkvs skvs)
     \<and> overcats (fst (restore_from_backup fl (Parsed file) L)) = overcats S"
proof -
  note f = create_backup_Inr [OF assms(1)]
  have k: "has_all_keys file [''records'', ''loans'', ''settings''] = Inr True"
    by (simp add: f has_all_keys_dict del: has_all_keys.simps)
  have r: "read_records file = Inr (records S)"
    by (simp add: f read_records_def map_result_from_dict)
  have l: "read_loans file = Inr (loans S)"
    by (simp add: f read_loans_def map_result_loan_from_dict)
  have s: "py_index file ''settings'' = Inr (PyDict skvs)"
    by (simp add: f assms(2))
  have u: "py_update lkvs (PyDict skvs) = (dict_update lkvs skvs, None)"
    by (simp add: py_update_def)
  have c: "py_contains file ''overconsumption_categories'' = Inr True"
    by (simp add: f)
  have ci: "py_index file ''overconsumption_categories'' = Inr (PyList (overcats S))"
    by (simp add: f)
  have ps: "py_set fl (PyList (overcats S)) = Inr (overcats S)"
    by (rule py_set_list [OF assms(3)])
  show ?thesis
    unfolding restore_from_backup_def
    by (simp add: k r l s u c ci ps assms(4) set_records_def set_loans_def
        update_settings_def set_overconsumption_categories_def save_def set_data_def
        Let_def del: has_all_keys.simps)
qed

text \<open>
  C4, as amended. Let \<open>create_backup\<close> at the state \<open>S\<close> produce \<open>file\<close>, and let \<open>L\<close> be
  any later state of the account (whatever its records, loans, categories and store,
  its settings still a dictionary). Then \<open>restore_from_backup\<close> on \<open>file\<close> returns true
  and yields an account with the records of \<open>S\<close>, the loans of \<open>S\<close> and the category
  set of \<open>S\<close>. Its settings are those of \<open>L\<close> updated key by
  key with those of \<open>S\<close>, so \<open>get_balance\<close> is that of \<open>S\<close> when the settings of \<open>S\<close>
  hold the key \<open>initial_balance\<close>.
\<close>

theorem backup_restore_roundtrip:
  fixes S L :: "('a::{zero,one,plus,minus}) User"
  assumes "create_backup now w S = Inr file"
    and "settings S = PyDict skvs"
    and "distinct (map fst skvs)"
    and "is_pyset fl (overcats S)"
    and "settings L = PyDict lkvs"
  shows "snd (restore_from_backup fl (Parsed file) L) = Inr True
     \<and> records (fst (restore_from_backup fl (Parsed file) L))
         = records S
     \<and> loans (fst (restore_from_backup fl (Parsed file) L)) = loans S
     \<and> overcats (fst (restore_from_backup fl (Parsed file) L)) = overcats S
     \<and> settings (fst (restore_from_backup fl (Parsed file) L)) = PyDict (dict_update lkvs skvs)
     \<and> (''initial_balance'' \<in> set (map fst skvs) \<longrightarrow>
          get_balance fl (fst (restore_from_backup fl (Parsed file) L))
            = get_balance fl S)"
proof -
  let ?L' = "fst (restore_from_backup fl (Parsed file) L)"
  note st = restore_backup_state [OF assms(1,2,4,5)]
  have bal: "get_balance fl ?L' = get_balance fl S"
    if "''initial_balance'' \<in> set (map fst skvs)"
  proof -
    from that obtain v where v: "map_of skvs ''initial_balance'' = Some v"
      by (metis map_of_eq_None_iff not_Some_eq set_map)
    have "map_of (dict_update lkvs skvs) ''initial_balance'' = Some v"
      using v by (simp add: map_of_dict_update [OF assms(3)])
    then have "initial_balance fl ?L' = initial_balance fl S"
      using st v by (simp add: initial_balance_def assms(2))
    then show ?thesis
      using st
      by (cases "initial_balance fl S") (simp_all add: get_balance_def)
  qed
  from st bal show ?thesis by blast
qed

theorem backup_restore_roundtrip_witness:
  "create_backup ''2025-01-03T09:00:00'' True (balance_user :: rat User)
     = Inr (PyDict
         [(''records'', PyList (map to_dict (records (balance_user :: rat User)))),
          (''loans'', PyList []),
          (''settings'', PyDict [(''initial_balance'', PyFloat 500)]),
          (''overconsumption_categories'', PyList []),
          (''backup_time'', PyStr ''2025-01-03T09:00:00''),
          (''version'', PyStr ''1.0'')])
   \<and> settings (balance_user :: rat User) = PyDict [(''initial_balance'', PyFloat 500)]
   \<and> distinct (map fst [(''initial_balance'', PyFloat (500 :: rat))])
   \<and> is_pyset (exact (\<lambda>s. None)) (overcats (balance_user :: rat User))
   \<and> settings (live_user :: rat User) = PyDict [(''initial_balance'', PyFloat 100)]
   \<and> ''initial_balance'' \<in> set (map fst [(''initial_balance'', PyFloat (500 :: rat))])
   \<and> get_balance (exact (\<lambda>s. None)) (live_user :: rat User) = Inr 100
   \<and> get_balance (exact (\<lambda>s. None))
        (fst (restore_from_backup (exact (\<lambda>s. None))
           (Parsed (PyDict
             [(''records'', PyList (map to_dict (records (balance_user :: rat User)))),
              (''loans'', PyList []),
              (''settings'', PyDict [(''initial_balance'', PyFloat 500)]),
              (''overconsumption_categories'', PyList []),
              (''backup_time'', PyStr ''2025-01-03T09:00:00''),
              (''version'', PyStr ''1.0'')]))
           live_user))
       = Inr 550"
proof -
  have c: "create_backup ''2025-01-03T09:00:00'' True (balance_user :: rat User)
     = Inr (PyDict
         [(''records'', PyList (map to_dict (records (balance_user :: rat User)))),
          (''loans'', PyList []),
          (''settings'', PyDict [(''initial_balance'', PyFloat 500)]),
          (''overconsumption_categories'', PyList []),
          (''backup_time'', PyStr ''2025-01-03T09:00:00''),
          (''version'', PyStr ''1.0'')])"
    by (simp add: create_backup_def balance_user_def loan_to_dict_def)
  have s: "settings (balance_user :: rat User) = PyDict [(''initial_balance'', PyFloat 500)]"
    by (simp add: balance_user_def)
  have d: "distinct (map fst [(''initial_balance'', PyFloat (500 :: rat))])"
    by simp
  have p: "is_pyset (exact (\<lambda>s. None)) (overcats (balance_user :: rat User))"
    by (simp add: balance_user_def is_pyset_def)
  have l: "settings (live_user :: rat User) = PyDict [(''initial_balance'', PyFloat 100)]"
    by (simp add: live_user_def save_def bare_user_def)
  have i: "''initial_balance'' \<in> set (map fst [(''initial_balance'', PyFloat (500 :: rat))])"
    by simp
  have g: "get_balance (exact (\<lambda>s. None)) (live_user :: rat User) = Inr 100"
    by (simp add: get_balance_def initial_balance_def live_user_def save_def bare_user_def)
  have b: "get_balance (exact (\<lambda>s. None)) (balance_user :: rat User) = Inr 550"
    by (simp add: get_balance_def initial_balance_def balance_user_def)
  from backup_restore_roundtrip [OF c s d p l] i b
  have "get_balance (exact (\<lambda>s. None))
        (fst (restore_from_backup (exact (\<lambda>s. None))
           (Parsed (PyDict
             [(''records'', PyList (map to_dict (records (balance_user :: rat User)))),
              (''loans'', PyList []),
              (''settings'', PyDict [(''initial_balance'', PyFloat 500)]),
              (''overconsumption_categories'', PyList []),
              (''backup_time'', PyStr ''2025-01-03T09:00:00''),
              (''version'', PyStr ''1.0'')]))
           live_user))
       = Inr 550"
    by simp
  with c s d p l i g show ?thesis by blast
qed

text \<open>
  The balance is not restored when the settings of \<open>S\<close> lack \<open>initial_balance\<close>: the
  account loaded from a snapshot with an empty settings object has the balance 0; after
  a backup, \<open>set_initial_balance(100)\<close> and the restore of that backup, it has the
  balance 100.
\<close>

theorem backup_restore_roundtrip_counterexample:
  "User_init (exact (\<lambda>s. None)) (Storage_init (Object bare_file)) = Inr (bare_user :: rat User)
   \<and> get_balance (exact (\<lambda>s. None)) (bare_user :: rat User) = Inr 0
   \<and> create_backup ''2025-01-03T09:00:00'' True (bare_user :: rat User) = Inr bare_backup
   \<and> set_initial_balance (exact (\<lambda>s. None)) (PyFloat 100) (bare_user :: rat User) = Inr live_user
   \<and> snd (restore_from_backup (exact (\<lambda>s. None)) (Parsed bare_backup) (live_user :: rat User)) = Inr True
   \<and> get_balance (exact (\<lambda>s. None))
        (fst (restore_from_backup (exact (\<lambda>s. None)) (Parsed bare_backup) (live_user :: rat User))) = Inr 100"
proof -
  have 1: "User_init (exact (\<lambda>s. None)) (Storage_init (Object bare_file)) = Inr (bare_user :: rat User)"
    by (simp add: User_init_def Storage_init_def bare_file_def bare_user_def data_get_def
        dict_update_def default_data_def py_set_def)
  have 2: "get_balance (exact (\<lambda>s. None)) (bare_user :: rat User) = Inr 0"
    by (simp add: get_balance_def initial_balance_def bare_user_def)
  have 3: "create_backup ''2025-01-03T09:00:00'' True (bare_user :: rat User) = Inr bare_backup"
    by (simp add: create_backup_def bare_user_def bare_backup_def)
  have 4: "set_initial_balance (exact (\<lambda>s. None)) (PyFloat 100) (bare_user :: rat User)
      = Inr live_user"
    by (simp add: set_initial_balance_def update_settings_def live_user_def bare_user_def)
  have s: "settings (bare_user :: rat User) = PyDict []"
    by (simp add: bare_user_def)
  have p: "is_pyset (exact (\<lambda>s. None)) (overcats (bare_user :: rat User))"
    by (simp add: bare_user_def is_pyset_def)
  have l: "settings (live_user :: rat User) = PyDict [(''initial_balance'', PyFloat 100)]"
    by (simp add: live_user_def save_def bare_user_def)
  note st = restore_backup_state [OF 3 s p l]
  have 5: "snd (restore_from_backup (exact (\<lambda>s. None)) (Parsed bare_backup) (live_user :: rat User)) = Inr True"
    using st by simp
  have 6: "get_balance (exact (\<lambda>s. None))
        (fst (restore_from_backup (exact (\<lambda>s. None)) (Parsed bare_backup) (live_user :: rat User))) = Inr 100"
    using st by (simp add: get_balance_def initial_balance_def dict_update_def bare_user_def)
  from 1 2 3 4 5 6 show ?thesis by blast
qed

subsection \<open>The loops over the records\<close>

lemma float_iadd_numeric: "numeric fl v \<Longrightarrow> float_iadd fl b v = Inr (b + num_of fl v)"
  by (cases v) auto

lemma float_isub_numeric: "numeric fl v \<Longrightarrow> float_isub fl b v = Inr (b - num_of fl v)"
  by (cases v) auto

lemma float_iadd_not_numeric: "\<not> numeric fl v \<Longrightarrow> \<exists>e. float_iadd fl b v = Inl e"
  by (cases v) auto

lemma float_isub_not_numeric: "\<not> numeric fl v \<Longrightarrow> \<exists>e. float_isub fl b v = Inl e"
  by (cases v) auto

lemma balance_loop_fold:
  assumes "\<forall>r\<in>set rs. numeric fl (amount r)"
  shows "balance_loop fl bal rs =
    Inr (foldl (\<lambda>b r. if is_income r then b + num_of fl (amount r)
                       else b - num_of fl (amount r)) bal rs)"
  using assms
  by (induction rs arbitrary: bal)
     (simp_all add: is_income_def float_iadd_numeric float_isub_numeric)

lemma balance_loop_sum:
  fixes bal :: "'a::ring_1"
  assumes "\<forall>r\<in>set rs. numeric fl (amount r)"
  shows "balance_loop fl bal rs =
    Inr (bal + amount_sum fl is_income rs - amount_sum fl (\<lambda>r. \<not> is_income r) rs)"
  using assms
  by (induction rs arbitrary: bal)
     (simp_all add: amount_sum_def is_income_def float_iadd_numeric float_isub_numeric
        algebra_simps)

lemma balance_loop_error:
  assumes "\<not> (\<forall>r\<in>set rs. numeric fl (amount r))"
  shows "\<exists>e. balance_loop fl bal rs = Inl e"
  using assms
proof (induction rs arbitrary: bal)
  case Nil
  then show ?case by simp
next
  case (Cons r rs)
  show ?case
  proof (cases "numeric fl (amount r)")
    case True
    with Cons show ?thesis
      by (simp add: float_iadd_numeric float_isub_numeric)
  next
    case False
    from float_iadd_not_numeric [OF False] float_isub_not_numeric [OF False]
    obtain e1 e2 where "float_iadd fl bal (amount r) = Inl e1"
      "float_isub fl bal (amount r) = Inl e2"
      by blast
    then show ?thesis by simp
  qed
qed

lemma totals_loop_sum:
  fixes i :: "'a::ring_1"
  assumes "\<forall>r\<in>set rs. numeric fl (amount r)"
  shows "totals_loop fl (i, e) rs =
    Inr (i + amount_sum fl is_income rs, e + amount_sum fl (\<lambda>r. \<not> is_income r) rs)"
  using assms
  by (induction rs arbitrary: i e)
     (simp_all add: amount_sum_def is_income_def float_iadd_numeric algebra_simps)

lemma totals_loop_error:
  assumes "\<not> (\<forall>r\<in>set rs. numeric fl (amount r))"
  shows "\<exists>x. totals_loop fl (i, e) rs = Inl x"
  using assms
proof (induction rs arbitrary: i e)
  case Nil
  then show ?case by simp
next
  case (Cons r rs)
  show ?case
  proof (cases "numeric fl (amount r)")
    case True
    with Cons show ?thesis
      by (simp add: float_iadd_numeric)
  next
    case False
    from float_iadd_not_numeric [OF False, where b = i] float_iadd_not_numeric [OF False, where b = e]
    obtain e1 e2 where "float_iadd fl i (amount r) = Inl e1"
      "float_iadd fl e (amount r) = Inl e2"
      by blast
    then show ?thesis by simp
  qed
qed

lemma filter_ts_subset: "filter_ts p rs = Inr ys \<Longrightarrow> set ys \<subseteq> set rs"
proof (induction rs arbitrary: ys)
  case Nil
  then show ?case by simp
next
  case (Cons r rs)
  then show ?case
    by (auto split: pyval.splits sum.splits if_splits)
qed

lemma filter_records_None: "filter_records None None u = Inr (records u)"
  by (simp add: filter_records_def)

lemma filter_records_subset:
  assumes "filter_records start fin u = Inr recs"
  shows "set recs \<subseteq> set (records u)"
proof -
  from assms obtain r1 where
    a: "(if truthy start then filter_ts (\<lambda>t. t \<ge> the start) (records u)
         else Inr (records u)) = Inr r1"
    and b: "(if truthy fin then filter_ts (\<lambda>t. t < the fin) r1 else Inr r1) = Inr recs"
    by (auto simp: filter_records_def split: sum.splits)
  from a have "set r1 \<subseteq> set (records u)"
    by (auto dest: filter_ts_subset split: if_splits)
  moreover from b have "set recs \<subseteq> set r1"
    by (auto dest: filter_ts_subset split: if_splits)
  ultimately show ?thesis by blast
qed

lemma amount_sum_kinds:
  assumes "\<forall>r\<in>set rs. is_income r \<or> is_expense r"
  shows "amount_sum fl (\<lambda>r. \<not> is_income r) rs = amount_sum fl is_expense rs"
proof -
  have "filter (\<lambda>r. \<not> is_income r) rs = filter is_expense rs"
    using assms by (intro filter_cong) (auto simp: is_income_def is_expense_def)
  then show ?thesis by (simp add: amount_sum_def)
qed

subsection \<open>Updating a record\<close>









subsection \<open>The category breakdown\<close>












subsection \<open>The monthly series\<close>














lemma rev_upt_map: "rev [0..<k] = map (\<lambda>j. k - 1 - j) [0..<k]"
  by (rule nth_equalityI) (simp_all add: rev_nth)











subsection \<open>The balance\<close>

lemma bit_length_0: "bit_length 0 = 0"
  by (simp add: bit_length.simps)

lemma bit_length_1: "bit_length (Suc 0) = Suc 0"
  by (simp add: bit_length.simps)

lemma bit_length_numeral:
  "bit_length (numeral k) = Suc (bit_length (numeral k div 2))"
  by (subst bit_length.simps) simp

lemma floor_rat_numeral_div:
  "\<lfloor>(numeral a :: rat) / numeral b\<rfloor> = numeral a div numeral b"
  using floor_divide_of_int_eq [of "numeral a" "numeral b", where ?'a = rat] by simp

lemmas round_double_eval = round_double_def ilog2_def round_half_even_def Let_def
  bit_length_0 bit_length_1 bit_length_numeral floor_rat_numeral_div

lemma round_double_tie: "round_double 9007199254740993 = Finite 9007199254740992"
  by (simp add: round_double_eval)

lemma round_double_exact:
  "round_double 9007199254740994 = Finite 9007199254740994"
  "round_double 2 = Finite 2"
  "round_double 1 = Finite 1"
  by (simp_all add: round_double_eval)

lemma round_double_small:
  "round_double 200 = Finite 200"
  "round_double 700 = Finite 700"
  "round_double 550 = Finite 550"
  by (simp_all add: round_double_eval)

lemma get_balance_float_user:
  "get_balance (binary64 (\<lambda>s. None)) float_user = Inr (Finite 9007199254740992)"
  by (simp add: get_balance_def initial_balance_def float_user_def round_double_tie)

lemma foldl_plus_sum_list:
  fixes a :: "'a::monoid_add"
  shows "foldl (+) a xs = a + sum_list xs"
  by (induction xs arbitrary: a) (simp_all add: add.assoc)

lemma stated_balance_exact:
  fixes v :: "('a::ring_1) User"
  assumes "initial_balance fl v = Inr init"
  shows "stated_balance fl v =
    Inr (init + amount_sum fl is_income (records v) - amount_sum fl is_expense (records v))"
  using assms by (simp add: stated_balance_def amount_sum_def foldl_plus_sum_list)

text \<open>
  C1, as amended. \<open>get_balance\<close> converts the initial balance with \<open>float\<close> and goes
  through the whole record sequence in its order: it adds the amount of a record whose
  kind is \<open>income\<close> and subtracts the amount of every other record, whatever its kind,
  each step in the arithmetic of the floats. It returns when the initial balance
  converts and every amount is a number (a float, a bool, an int that has a float), and
  raises otherwise. In exact arithmetic the value returned is the initial balance plus
  the sum of the amounts of the income records minus the sum of the amounts of the
  records that are no income, which is the balance that the specification states when
  every kind is \<open>income\<close> or \<open>expense\<close>. For the records (income, 200), (expense, 150) and
  an initial balance of 500, in binary64 floats, it returns 550.
\<close>

theorem get_balance_formula:
  fixes u :: "('a::{zero,one,plus,minus}) User" and v :: "('b::ring_1) User"
  shows "(\<forall>init. initial_balance fl u = Inr init \<longrightarrow>
            (\<forall>r\<in>set (records u). numeric fl (amount r)) \<longrightarrow>
            get_balance fl u =
              Inr (foldl (\<lambda>b r. if is_income r then b + num_of fl (amount r)
                                 else b - num_of fl (amount r)) init (records u)))
     \<and> ((\<forall>init. initial_balance fl u \<noteq> Inr init)
           \<or> (\<exists>r\<in>set (records u). \<not> numeric fl (amount r)) \<longrightarrow>
         (\<exists>e. get_balance fl u = Inl e))
     \<and> (\<forall>init. initial_balance gl v = Inr init \<longrightarrow>
            (\<forall>r\<in>set (records v). numeric gl (amount r)) \<longrightarrow>
            get_balance gl v =
              Inr (init + amount_sum gl is_income (records v)
                     - amount_sum gl (\<lambda>r. \<not> is_income r) (records v))
            \<and> ((\<forall>r\<in>set (records v). is_income r \<or> is_expense r) \<longrightarrow>
                 get_balance gl v = stated_balance gl v))
     \<and> get_balance (binary64 parse) float_balance_user = Inr (Finite 550)"
proof -
  have 1: "get_balance fl u =
      Inr (foldl (\<lambda>b r. if is_income r then b + num_of fl (amount r)
                         else b - num_of fl (amount r)) init (records u))"
    if "initial_balance fl u = Inr init" and "\<forall>r\<in>set (records u). numeric fl (amount r)"
    for init
    using that by (simp add: get_balance_def balance_loop_fold)
  have 2: "\<exists>e. get_balance fl u = Inl e"
    if "(\<forall>init. initial_balance fl u \<noteq> Inr init)
        \<or> (\<exists>r\<in>set (records u). \<not> numeric fl (amount r))"
  proof (cases "initial_balance fl u")
    case (Inl e)
    then show ?thesis by (simp add: get_balance_def)
  next
    case (Inr b)
    with that have "\<not> (\<forall>r\<in>set (records u). numeric fl (amount r))"
      by auto
    from balance_loop_error [OF this, where bal = b] Inr show ?thesis
      by (simp add: get_balance_def)
  qed
  have 3: "get_balance gl v =
      Inr (init + amount_sum gl is_income (records v)
             - amount_sum gl (\<lambda>r. \<not> is_income r) (records v))"
    if "initial_balance gl v = Inr init" and "\<forall>r\<in>set (records v). numeric gl (amount r)"
    for init
    using that by (simp add: get_balance_def balance_loop_sum)
  have 4: "get_balance gl v = stated_balance gl v"
    if "initial_balance gl v = Inr init" and "\<forall>r\<in>set (records v). numeric gl (amount r)"
      and "\<forall>r\<in>set (records v). is_income r \<or> is_expense r"
    for init
    using 3 [OF that(1,2)] that(1,3)
    by (simp add: stated_balance_exact amount_sum_kinds)
  have 5: "get_balance (binary64 parse) float_balance_user = Inr (Finite 550)"
    by (simp add: get_balance_def initial_balance_def float_balance_user_def
        round_double_small)
  from 1 2 3 4 5 show ?thesis
    by (intro conjI allI impI) blast+
qed

theorem get_balance_formula_witness:
  "initial_balance (exact (\<lambda>s. None)) (balance_user :: rat User) = Inr 500
   \<and> amount_sum (exact (\<lambda>s. None)) is_income (records (balance_user :: rat User)) = 200
   \<and> amount_sum (exact (\<lambda>s. None)) (\<lambda>r. \<not> is_income r)
        (records (balance_user :: rat User)) = 150
   \<and> get_balance (exact (\<lambda>s. None)) (balance_user :: rat User) = Inr (500 + 200 - 150)
   \<and> stated_balance (exact (\<lambda>s. None)) (balance_user :: rat User) = Inr 550
   \<and> foldl (\<lambda>b r. if is_income r then b + num_of (exact (\<lambda>s. None)) (amount r)
                    else b - num_of (exact (\<lambda>s. None)) (amount r))
        500 (records (balance_user :: rat User)) = 550"
proof -
  let ?fl = "exact (\<lambda>s. None)"
  let ?u = "balance_user :: rat User"
  have i: "initial_balance ?fl ?u = Inr 500"
    by (simp add: initial_balance_def balance_user_def)
  have n: "\<forall>r\<in>set (records ?u). numeric ?fl (amount r)"
    by (simp add: balance_user_def)
  have k: "\<forall>r\<in>set (records ?u). is_income r \<or> is_expense r"
    by (simp add: balance_user_def is_income_def is_expense_def)
  have a: "amount_sum ?fl is_income (records ?u) = 200"
    by (simp add: balance_user_def amount_sum_def is_income_def)
  have b: "amount_sum ?fl (\<lambda>r. \<not> is_income r) (records ?u) = 150"
    by (simp add: balance_user_def amount_sum_def is_income_def)
  have f: "foldl (\<lambda>b r. if is_income r then b + num_of ?fl (amount r)
                         else b - num_of ?fl (amount r)) 500 (records ?u) = 550"
    by (simp add: balance_user_def is_income_def)
  note t = get_balance_formula [where fl = ?fl and u = ?u and gl = ?fl and v = ?u
      and parse = "\<lambda>s. None"]
  from t i n have g: "get_balance ?fl ?u = Inr (500 + 200 - 150)"
    by (simp add: a b f)
  from t i n k have "get_balance ?fl ?u = stated_balance ?fl ?u"
    by blast
  with g have s: "stated_balance ?fl ?u = Inr 550"
    by simp
  from i a b g s f show ?thesis by blast
qed

text \<open>
  The balance is not always the stated one. With the kind of the expense misspelt, the
  amount 150 is subtracted all the same: \<open>get_balance\<close> returns 550, and the stated
  balance, which has no expense to subtract, is 700. And with floats the order of the
  additions counts: from an initial balance of \<open>2^53\<close> and two incomes of 1,
  \<open>get_balance\<close> adds 1 to \<open>2^53\<close> twice, which rounds back to \<open>2^53\<close> each time, while
  the stated balance adds the sum 2 of the incomes to \<open>2^53\<close>.
\<close>

theorem get_balance_formula_counterexample:
  "get_balance (binary64 (\<lambda>s. None)) float_misspelt_user = Inr (Finite 550)
   \<and> stated_balance (binary64 (\<lambda>s. None)) float_misspelt_user = Inr (Finite 700)
   \<and> get_balance (binary64 (\<lambda>s. None)) float_user = Inr (Finite 9007199254740992)
   \<and> stated_balance (binary64 (\<lambda>s. None)) float_user = Inr (Finite 9007199254740994)"
proof -
  have 1: "get_balance (binary64 (\<lambda>s. None)) float_misspelt_user = Inr (Finite 550)"
    by (simp add: get_balance_def initial_balance_def float_misspelt_user_def
        float_balance_user_def round_double_small)
  have 2: "stated_balance (binary64 (\<lambda>s. None)) float_misspelt_user = Inr (Finite 700)"
    by (simp add: stated_balance_def initial_balance_def float_misspelt_user_def
        float_balance_user_def is_income_def is_expense_def zero_double_def
        round_double_small)
  have 3: "stated_balance (binary64 (\<lambda>s. None)) float_user
      = Inr (Finite 9007199254740994)"
    by (simp add: stated_balance_def initial_balance_def float_user_def is_income_def
        is_expense_def zero_double_def round_double_exact)
  from 1 2 3 get_balance_float_user show ?thesis by blast
qed

text \<open>
  C9. In \<open>get_balance\<close> and in \<open>totals\<close> every record whose kind is not exactly
  \<open>income\<close> counts as an expense: its amount is subtracted from the balance and added
  to the expense total. There is no third branch.
\<close>

theorem non_income_counts_as_expense:
  fixes u :: "('a::ring_1) User"
  assumes "initial_balance fl u = Inr init"
    and "\<forall>r\<in>set (records u). numeric fl (amount r)"
    and "filter_records start fin u = Inr recs"
  shows "get_balance fl u =
           Inr (init + amount_sum fl is_income (records u)
                  - amount_sum fl (\<lambda>r. \<not> is_income r) (records u))
         \<and> totals fl start fin u =
           Inr \<lparr>income = amount_sum fl is_income recs,
                expense = amount_sum fl (\<lambda>r. \<not> is_income r) recs,
                balance = amount_sum fl is_income recs
                  - amount_sum fl (\<lambda>r. \<not> is_income r) recs + init\<rparr>"
proof
  show "get_balance fl u =
          Inr (init + amount_sum fl is_income (records u)
                 - amount_sum fl (\<lambda>r. \<not> is_income r) (records u))"
    using assms(1,2) by (simp add: get_balance_def balance_loop_sum)
  have "\<forall>r\<in>set recs. numeric fl (amount r)"
    using assms(2) filter_records_subset [OF assms(3)] by blast
  then show "totals fl start fin u =
     Inr \<lparr>income = amount_sum fl is_income recs,
          expense = amount_sum fl (\<lambda>r. \<not> is_income r) recs,
          balance = amount_sum fl is_income recs
            - amount_sum fl (\<lambda>r. \<not> is_income r) recs + init\<rparr>"
    using assms(1,3) by (simp add: totals_def totals_loop_sum)
qed

theorem non_income_counts_as_expense_witness:
  "initial_balance (exact (\<lambda>s. None)) (misspelt_user :: rat User) = Inr 500
   \<and> filter_records None None (misspelt_user :: rat User)
       = Inr (records (misspelt_user :: rat User))
   \<and> get_balance (exact (\<lambda>s. None)) (misspelt_user :: rat User) = Inr 550
   \<and> totals (exact (\<lambda>s. None)) None None (misspelt_user :: rat User)
       = Inr \<lparr>income = 200, expense = 150, balance = 550\<rparr>"
proof -
  have i: "initial_balance (exact (\<lambda>s. None)) (misspelt_user :: rat User) = Inr 500"
    by (simp add: initial_balance_def misspelt_user_def balance_user_def)
  have n: "\<forall>r\<in>set (records (misspelt_user :: rat User)). numeric (exact (\<lambda>s. None)) (amount r)"
    by (simp add: misspelt_user_def)
  have f: "filter_records None None (misspelt_user :: rat User)
       = Inr (records (misspelt_user :: rat User))"
    by (rule filter_records_None)
  have a: "amount_sum (exact (\<lambda>s. None)) is_income (records (misspelt_user :: rat User)) = 200"
    by (simp add: misspelt_user_def amount_sum_def is_income_def)
  have b: "amount_sum (exact (\<lambda>s. None)) (\<lambda>r. \<not> is_income r) (records (misspelt_user :: rat User)) = 150"
    by (simp add: misspelt_user_def amount_sum_def is_income_def)
  from non_income_counts_as_expense [OF i n f] a b
  have "get_balance (exact (\<lambda>s. None)) (misspelt_user :: rat User) = Inr 550
   \<and> totals (exact (\<lambda>s. None)) None None (misspelt_user :: rat User)
       = Inr \<lparr>income = 200, expense = 150, balance = 550\<rparr>"
    by simp
  with i n f show ?thesis by blast
qed

text \<open>
  C8, as amended. In exact arithmetic \<open>totals\<close> without bounds and \<open>get_balance\<close>
  agree on every account: either both raise, or both return and the \<open>balance\<close> of
  \<open>totals\<close> is the value of \<open>get_balance\<close>.
\<close>

theorem totals_unfiltered_balance:
  fixes u :: "('a::ring_1) User"
  shows "map_sum (\<lambda>e. ()) balance (totals fl None None u)
       = map_sum (\<lambda>e. ()) id (get_balance fl u)"
proof (cases "\<forall>r\<in>set (records u). numeric fl (amount r)")
  case True
  then show ?thesis
    by (cases "initial_balance fl u")
       (simp_all add: totals_def get_balance_def filter_records_None
          totals_loop_sum balance_loop_sum algebra_simps)
next
  case False
  from totals_loop_error [OF False, where i = 0 and e = 0] obtain x where
    x: "totals_loop fl (0, 0) (records u) = Inl x"
    by blast
  show ?thesis
  proof (cases "initial_balance fl u")
    case (Inl a)
    then show ?thesis
      by (simp add: totals_def get_balance_def filter_records_None x)
  next
    case (Inr b)
    from balance_loop_error [OF False, where bal = b] obtain y where
      "balance_loop fl b (records u) = Inl y"
      by blast
    with Inr show ?thesis
      by (simp add: totals_def get_balance_def filter_records_None x)
  qed
qed

text \<open>
  With binary64 floats the two can differ, for they add in different orders: from an
  initial balance of \<open>2^53\<close> and two incomes of 1, \<open>get_balance\<close> adds 1 to \<open>2^53\<close>
  twice, which rounds back to \<open>2^53\<close> each time, while \<open>totals\<close> adds the sum 2 of the
  incomes to \<open>2^53\<close>.
\<close>

lemma totals_float_user:
  "totals (binary64 (\<lambda>s. None)) None None float_user
   = Inr \<lparr>income = Finite 2, expense = Finite 0, balance = Finite 9007199254740994\<rparr>"
  by (simp add: totals_def filter_records_None initial_balance_def float_user_def
      zero_double_def round_double_exact)

theorem totals_unfiltered_balance_counterexample:
  "map_sum (\<lambda>e. ()) balance (totals (binary64 (\<lambda>s. None)) None None float_user)
     \<noteq> map_sum (\<lambda>e. ()) id (get_balance (binary64 (\<lambda>s. None)) float_user)"
  by (simp add: get_balance_float_user totals_float_user)

subsection \<open>The reminder thresholds\<close>

text \<open>
  C2. One poll of \<open>check_thresholds\<close>, for the balance \<open>bal\<close> and the thresholds \<open>warn\<close>
  and \<open>urgent\<close> that the account yields, as a function of the flags before the poll:
  when \<open>bal \<le> urgent\<close> it emits \<open>urgent\<close> exactly when \<open>warned_urgent\<close> was false and
  leaves both flags true, whatever \<open>warn\<close> is; otherwise, when \<open>bal \<le> warn\<close>, it emits
  \<open>warn\<close> exactly when \<open>warned_low\<close> was false and leaves \<open>warned_low\<close> true and
  \<open>warned_urgent\<close> false; otherwise (\<open>bal > warn\<close>) it emits nothing and leaves both
  flags false.
\<close>

theorem check_thresholds_step:
  fixes u :: "('a::linordered_idom) User"
  assumes "get_balance fl u = Inr bal"
    and "threshold fl u ''threshold_warn'' 3000 = Inr warn"
    and "threshold fl u ''threshold_urgent'' 1000 = Inr urgent"
  shows "check_thresholds fl u s = Inr
     (if bal \<le> urgent then
        (if warned_urgent s then [] else [(''urgent'', bal)],
         \<lparr>warned_low = True, warned_urgent = True\<rparr>)
      else if bal \<le> warn then
        (if warned_low s then [] else [(''warn'', bal)],
         \<lparr>warned_low = True, warned_urgent = False\<rparr>)
      else ([], \<lparr>warned_low = False, warned_urgent = False\<rparr>))
    \<and> ((\<not> bal \<le> urgent \<and> \<not> bal \<le> warn) = (bal > warn \<and> bal > urgent))"
  using assms by (auto simp: check_thresholds_def)

theorem check_thresholds_step_witness:
  "get_balance (exact (\<lambda>s. None)) (poll_user :: rat User) = Inr 2000
   \<and> threshold (exact (\<lambda>s. None)) (poll_user :: rat User) ''threshold_warn'' 3000 = Inr 3000
   \<and> threshold (exact (\<lambda>s. None)) (poll_user :: rat User) ''threshold_urgent'' 1000 = Inr 1000
   \<and> check_thresholds (exact (\<lambda>s. None)) (poll_user :: rat User)
        \<lparr>warned_low = False, warned_urgent = True\<rparr>
      = Inr ([(''warn'', 2000)], \<lparr>warned_low = True, warned_urgent = False\<rparr>)"
proof -
  have b: "get_balance (exact (\<lambda>s. None)) (poll_user :: rat User) = Inr 2000"
    by (simp add: get_balance_def initial_balance_def poll_user_def)
  have w: "threshold (exact (\<lambda>s. None)) (poll_user :: rat User) ''threshold_warn'' 3000 = Inr 3000"
    by (simp add: threshold_def poll_user_def)
  have g: "threshold (exact (\<lambda>s. None)) (poll_user :: rat User) ''threshold_urgent'' 1000 = Inr 1000"
    by (simp add: threshold_def poll_user_def)
  from check_thresholds_step [OF b w g, of "\<lparr>warned_low = False, warned_urgent = True\<rparr>"]
  show ?thesis using b w g by simp
qed

end
